theory Spec2Isabelle
  imports Main "HOL-Library.Char_ord" "HOL-Library.List_Lexorder"
begin

section \<open>Python values and errors\<close>

text \<open>
  The value \<open>json.load\<close> hands to the program is a Python object built from
  \<open>None\<close>, \<open>bool\<close>, \<open>int\<close> (unbounded), \<open>float\<close>, \<open>str\<close>, \<open>list\<close> and
  \<open>dict\<close> with string keys. A \<open>dict\<close> is kept as its list of items in insertion
  order; a Python \<open>dict\<close> holds every key once, and \<open>dict_get\<close> is its \<open>get\<close>.
  A \<open>float\<close> is carried as data only: \<open>Finite m e\<close> stands for \<open>m * 2 ^ e\<close>.
\<close>

datatype pyfloat = Finite int int | PosInf | NegInf | NaN

datatype pyobj =
    PyNone
  | PyBool bool
  | PyInt int
  | PyFloat pyfloat
  | PyStr string
  | PyList "pyobj list"
  | PyDict "(string \<times> pyobj) list"

definition dict_get :: "(string \<times> 'v) list \<Rightarrow> string \<Rightarrow> 'v option" where
  "dict_get d k = map_of d k"

definition dict_keys :: "(string \<times> 'v) list \<Rightarrow> string list" where
  "dict_keys d = map fst d"

text \<open>
  Every \<open>raise\<close> of the program and of the library calls it makes is a value:
  \<open>open\<close> raises \<open>OSError\<close>, reading text that is not UTF-8 raises
  \<open>UnicodeDecodeError\<close>, \<open>json.load\<close> raises \<open>JSONDecodeError\<close>,
  \<open>model_validate\<close> raises \<open>ValidationError\<close>, and the lookup endpoint raises
  \<open>HTTPException\<close> with a status code and a detail string.
\<close>

datatype error =
    OSError
  | UnicodeDecodeError
  | JSONDecodeError
  | ValidationError
  | HTTPException nat string

section \<open>The data model (src/core/models.py)\<close>

text \<open>
  \<open>class Province(BaseModel)\<close> declares eight required fields, in this order. The
  fields \<open>id\<close>, \<open>name\<close> and \<open>type\<close> carry the prefix \<open>province_\<close> here.
\<close>

record Province =
  province_id :: int
  province_name :: string
  province_type :: string
  owner :: string
  development :: int
  trade_goods :: string
  terrain :: string
  description :: string

text \<open>\<open>class ProvincesData(BaseModel)\<close>: one field, \<open>provinces: dict[str, Province]\<close>.\<close>

record ProvincesData =
  provinces :: "(string \<times> Province) list"

definition field_names :: "string list" where
  "field_names = [''id'', ''name'', ''type'', ''owner'', ''development'',
                  ''trade_goods'', ''terrain'', ''description'']"

subsection \<open>Field validators of the validation library, in its default (lax) mode\<close>

text \<open>
  Neither model sets a configuration, so both are validated in the library's default
  mode: lax coercion, unknown keys ignored, every declared field without default required.

  A \<open>str\<close> field accepts a Python \<open>str\<close> and nothing else that \<open>json.load\<close> can
  produce. An \<open>int\<close> field accepts an \<open>int\<close>, a \<open>bool\<close> (as 0 or 1), and coerces a
  \<open>str\<close> that reads as an integer and a \<open>float\<close> without fractional part. The exact
  set of strings and floats the coercion accepts differs between releases of the
  library, so it is a parameter of the model (\<open>lax_mode\<close>); what is fixed is that a
  string of one to eighteen decimal digits is read as the number it spells.
\<close>

record lax_mode =
  str_as_int :: "string \<Rightarrow> int option"
  float_as_int :: "pyfloat \<Rightarrow> int option"

definition is_digit :: "char \<Rightarrow> bool" where
  "is_digit c \<longleftrightarrow> c \<in> set ''0123456789''"

definition digit_value :: "char \<Rightarrow> int" where
  "digit_value c = int (of_char c) - 48"

definition plain_decimal :: "string \<Rightarrow> bool" where
  "plain_decimal s \<longleftrightarrow> s \<noteq> [] \<and> length s \<le> 18 \<and> list_all is_digit s"

definition decimal_value :: "string \<Rightarrow> int" where
  "decimal_value s = foldl (\<lambda>acc c. 10 * acc + digit_value c) 0 s"

definition int_validator :: "lax_mode \<Rightarrow> pyobj \<Rightarrow> int option" where
  "int_validator lax v =
     (case v of
        PyInt n \<Rightarrow> Some n
      | PyBool b \<Rightarrow> Some (if b then 1 else 0)
      | PyStr s \<Rightarrow> (if plain_decimal s then Some (decimal_value s) else str_as_int lax s)
      | PyFloat x \<Rightarrow> float_as_int lax x
      | _ \<Rightarrow> None)"

definition str_validator :: "pyobj \<Rightarrow> string option" where
  "str_validator v = (case v of PyStr s \<Rightarrow> Some s | _ \<Rightarrow> None)"

text \<open>A required field: a missing key is an error, a present one goes to the validator.\<close>

definition required :: "(string \<times> pyobj) list \<Rightarrow> string \<Rightarrow> (pyobj \<Rightarrow> 'a option) \<Rightarrow> 'a option" where
  "required fs f validator = (case dict_get fs f of None \<Rightarrow> None | Some v \<Rightarrow> validator v)"

subsection \<open>Province.model_validate and Province.model_dump\<close>

definition validate_fields :: "lax_mode \<Rightarrow> (string \<times> pyobj) list \<Rightarrow> Province option" where
  "validate_fields lax fs =
     Option.bind (required fs ''id'' (int_validator lax)) (\<lambda>i.
     Option.bind (required fs ''name'' str_validator) (\<lambda>n.
     Option.bind (required fs ''type'' str_validator) (\<lambda>t.
     Option.bind (required fs ''owner'' str_validator) (\<lambda>ow.
     Option.bind (required fs ''development'' (int_validator lax)) (\<lambda>dv.
     Option.bind (required fs ''trade_goods'' str_validator) (\<lambda>tg.
     Option.bind (required fs ''terrain'' str_validator) (\<lambda>tr.
     Option.bind (required fs ''description'' str_validator) (\<lambda>ds.
       Some \<lparr>province_id = i, province_name = n, province_type = t, owner = ow,
             development = dv, trade_goods = tg, terrain = tr, description = ds\<rparr>))))))))"

definition Province_model_validate :: "lax_mode \<Rightarrow> pyobj \<Rightarrow> error + Province" where
  "Province_model_validate lax v =
     (case v of
        PyDict fs \<Rightarrow> (case validate_fields lax fs of None \<Rightarrow> Inl ValidationError | Some p \<Rightarrow> Inr p)
      | _ \<Rightarrow> Inl ValidationError)"

definition Province_model_dump :: "Province \<Rightarrow> pyobj" where
  "Province_model_dump p =
     PyDict [(''id'', PyInt (province_id p)),
             (''name'', PyStr (province_name p)),
             (''type'', PyStr (province_type p)),
             (''owner'', PyStr (owner p)),
             (''development'', PyInt (development p)),
             (''trade_goods'', PyStr (trade_goods p)),
             (''terrain'', PyStr (terrain p)),
             (''description'', PyStr (description p))]"

subsection \<open>ProvincesData.model_validate and ProvincesData.model_dump\<close>

text \<open>
  The \<open>dict[str, Province]\<close> validator visits every item and validates its value as a
  \<open>Province\<close>; one failing item makes the whole validation fail.
\<close>

fun validate_items :: "lax_mode \<Rightarrow> (string \<times> pyobj) list \<Rightarrow> (string \<times> Province) list option" where
  "validate_items lax [] = Some []"
| "validate_items lax ((k, v) # rest) =
     (case Province_model_validate lax v of
        Inl e \<Rightarrow> None
      | Inr p \<Rightarrow> (case validate_items lax rest of None \<Rightarrow> None | Some ps \<Rightarrow> Some ((k, p) # ps)))"

text \<open>
  \<open>provinces\<close> has \<open>default_factory=dict\<close>: a document without the key validates to
  the empty mapping. Other top-level keys are ignored.
\<close>

definition ProvincesData_model_validate :: "lax_mode \<Rightarrow> pyobj \<Rightarrow> error + ProvincesData" where
  "ProvincesData_model_validate lax raw =
     (case raw of
        PyDict items \<Rightarrow>
          (case dict_get items ''provinces'' of
             None \<Rightarrow> Inr \<lparr>provinces = []\<rparr>
           | Some (PyDict ps) \<Rightarrow>
               (case validate_items lax ps of
                  None \<Rightarrow> Inl ValidationError
                | Some d \<Rightarrow> Inr \<lparr>provinces = d\<rparr>)
           | Some _ \<Rightarrow> Inl ValidationError)
      | _ \<Rightarrow> Inl ValidationError)"

definition ProvincesData_model_dump :: "ProvincesData \<Rightarrow> pyobj" where
  "ProvincesData_model_dump pd =
     PyDict [(''provinces'', PyDict (map (\<lambda>(k, p). (k, Province_model_dump p)) (provinces pd)))]"

section \<open>The Loader (src/core/helpers.py and src/main.py)\<close>

text \<open>
  What the loader can find at \<open>PROVINCES_FILE\<close> (both modules bind it to
  \<open>Path("provinces.json")\<close>):
  \<^item> \<open>Absent\<close>: \<open>exists()\<close> is false;
  \<^item> \<open>Unopenable\<close>: \<open>exists()\<close> is true and \<open>open\<close> raises (a directory, no permission);
  \<^item> \<open>NotUtf8\<close>: the bytes are not UTF-8 text;
  \<^item> \<open>Malformed\<close>: the text is not well-formed JSON;
  \<^item> \<open>Document v\<close>: \<open>json.load\<close> returns \<open>v\<close>.

  \<open>json_load\<close> is the body of the \<open>with\<close> statement up to the parsed value:
  \<open>PROVINCES_FILE.open(encoding="utf-8")\<close> followed by \<open>json.load(f)\<close>.
\<close>

datatype file_state = Absent | Unopenable | NotUtf8 | Malformed | Document pyobj

definition json_load :: "file_state \<Rightarrow> error + pyobj" where
  "json_load fs =
     (case fs of
        Absent \<Rightarrow> Inl OSError
      | Unopenable \<Rightarrow> Inl OSError
      | NotUtf8 \<Rightarrow> Inl UnicodeDecodeError
      | Malformed \<Rightarrow> Inl JSONDecodeError
      | Document v \<Rightarrow> Inr v)"

definition file_exists :: "file_state \<Rightarrow> bool" where
  "file_exists fs \<longleftrightarrow> fs \<noteq> Absent"

text \<open>\<open>load_provinces\<close> of src/core/helpers.py.\<close>

definition load_provinces :: "lax_mode \<Rightarrow> file_state \<Rightarrow> error + ProvincesData" where
  "load_provinces lax fs =
     (if \<not> file_exists fs then Inr \<lparr>provinces = []\<rparr>
      else (case json_load fs of
              Inl e \<Rightarrow> Inl e
            | Inr raw_data \<Rightarrow> ProvincesData_model_validate lax raw_data))"

text \<open>\<open>load_provinces\<close> of src/main.py.\<close>

definition main_load_provinces :: "lax_mode \<Rightarrow> file_state \<Rightarrow> error + ProvincesData" where
  "main_load_provinces lax fs =
     (if \<not> file_exists fs then Inr \<lparr>provinces = []\<rparr>
      else (case json_load fs of
              Inl e \<Rightarrow> Inl e
            | Inr raw_data \<Rightarrow> ProvincesData_model_validate lax raw_data))"

section \<open>The serving layer (src/main.py)\<close>

definition get_provinces :: "lax_mode \<Rightarrow> file_state \<Rightarrow> error + pyobj" where
  "get_provinces lax fs =
     (case main_load_provinces lax fs of
        Inl e \<Rightarrow> Inl e
      | Inr provinces_data \<Rightarrow> Inr (ProvincesData_model_dump provinces_data))"

definition get_province :: "lax_mode \<Rightarrow> file_state \<Rightarrow> string \<Rightarrow> error + pyobj" where
  "get_province lax fs province_id' =
     (case main_load_provinces lax fs of
        Inl e \<Rightarrow> Inl e
      | Inr provinces_data \<Rightarrow>
          (case dict_get (provinces provinces_data) province_id' of
             None \<Rightarrow> Inl (HTTPException 404 ''Province not found'')
           | Some province \<Rightarrow> Inr (Province_model_dump province)))"

subsection \<open>The map-layer listing\<close>

text \<open>
  \<open>Path.glob\<close> matches a file name against a pattern of literal characters and
  \<open>*\<close>, which stands for any run of characters, the empty one too.
\<close>

datatype pat = Star | Lit char

fun fnmatch :: "pat list \<Rightarrow> string \<Rightarrow> bool" where
  "fnmatch [] s = (s = [])"
| "fnmatch (Lit c # p) [] = False"
| "fnmatch (Lit c # p) (x # xs) = (x = c \<and> fnmatch p xs)"
| "fnmatch (Star # p) [] = fnmatch p []"
| "fnmatch (Star # p) (x # xs) = (fnmatch p (x # xs) \<or> fnmatch (Star # p) xs)"

definition map_png_pattern :: "pat list" where
  "map_png_pattern = Star # map Lit ''map'' @ Star # map Lit ''.png''"

text \<open>
  The directory \<open>static\<close> is \<open>None\<close> when it does not exist and otherwise the names of
  its entries, in the order the operating system lists them. \<open>sorted\<close> orders Python
  strings by code point, which is the lexicographic order of their UTF-8 bytes.
\<close>

definition get_map_layer_files :: "string list option \<Rightarrow> string list" where
  "get_map_layer_files static_path =
     (case static_path of
        None \<Rightarrow> sort []
      | Some names \<Rightarrow>
          sort (filter (\<lambda>filename. filename \<notin> set [''data_map.png'', ''visual_map.png''])
                       (filter (fnmatch map_png_pattern) names)))"

section \<open>The persisted file format of the specification\<close>

text \<open>
  A province payload of the documented shape: exactly the eight keys, integers for
  \<open>id\<close> and \<open>development\<close>, strings for the rest.
\<close>

definition province_matches_schema :: "pyobj \<Rightarrow> bool" where
  "province_matches_schema v =
     (case v of
        PyDict fs \<Rightarrow>
          distinct (dict_keys fs) \<and> set (dict_keys fs) = set field_names \<and>
          list_all (\<lambda>(f, x). if f \<in> set [''id'', ''development'']
                              then (case x of PyInt n \<Rightarrow> True | _ \<Rightarrow> False)
                              else (case x of PyStr s \<Rightarrow> True | _ \<Rightarrow> False)) fs
      | _ \<Rightarrow> False)"

definition document_matches_schema :: "pyobj \<Rightarrow> bool" where
  "document_matches_schema doc =
     (case doc of
        PyDict [(k, PyDict ps)] \<Rightarrow>
          k = ''provinces'' \<and> distinct (dict_keys ps) \<and>
          list_all (\<lambda>(key, v). province_matches_schema v) ps
      | _ \<Rightarrow> False)"

text \<open>Two item lists that are the same mapping, whatever the order of their items.\<close>

definition same_mapping :: "(string \<times> 'v) list \<Rightarrow> (string \<times> 'v) list \<Rightarrow> bool" where
  "same_mapping a b \<longleftrightarrow>
     set (dict_keys a) = set (dict_keys b) \<and>
     list_all (\<lambda>k. dict_get a k = dict_get b k) (dict_keys a)"

text \<open>
  Two documents that hold equivalent \<open>provinces\<close> mappings: the same keys, and under
  each key records that are the same mapping of fields to values.
\<close>

definition same_record :: "pyobj option \<Rightarrow> pyobj option \<Rightarrow> bool" where
  "same_record x y =
     (case (x, y) of
        (Some (PyDict a), Some (PyDict b)) \<Rightarrow> same_mapping a b
      | _ \<Rightarrow> False)"

definition equivalent_provinces :: "pyobj \<Rightarrow> pyobj \<Rightarrow> bool" where
  "equivalent_provinces d1 d2 =
     (case (d1, d2) of
        (PyDict [(k1, PyDict qs)], PyDict [(k2, PyDict ps)]) \<Rightarrow>
          k1 = ''provinces'' \<and> k2 = ''provinces'' \<and>
          set (dict_keys qs) = set (dict_keys ps) \<and>
          list_all (\<lambda>k. same_record (dict_get qs k) (dict_get ps k)) (dict_keys ps)
      | _ \<Rightarrow> False)"

section \<open>The documents that validation rejects\<close>

text \<open>
  The violations of the documented shape, stated on the document itself. An integer
  field rejects \<open>null\<close>, a list, a mapping, a string that the coercion does not read
  as an integer and a float that it does not read as one. A string field rejects every
  value but a string.
\<close>

definition int_rejected :: "lax_mode \<Rightarrow> pyobj \<Rightarrow> bool" where
  "int_rejected lax x =
     (case x of
        PyInt n \<Rightarrow> False
      | PyBool b \<Rightarrow> False
      | PyStr s \<Rightarrow> \<not> plain_decimal s \<and> str_as_int lax s = None
      | PyFloat y \<Rightarrow> float_as_int lax y = None
      | _ \<Rightarrow> True)"

definition str_rejected :: "pyobj \<Rightarrow> bool" where
  "str_rejected x = (case x of PyStr s \<Rightarrow> False | _ \<Rightarrow> True)"

text \<open>
  A declared field is rejected when its key is missing or its value is rejected by the
  type of the field: integer for \<open>id\<close> and \<open>development\<close>, string for the rest.
\<close>

definition field_rejected :: "lax_mode \<Rightarrow> (string \<times> pyobj) list \<Rightarrow> string \<Rightarrow> bool" where
  "field_rejected lax fs f =
     (case dict_get fs f of
        None \<Rightarrow> True
      | Some x \<Rightarrow>
          if f \<in> set [''id'', ''development''] then int_rejected lax x
          else str_rejected x)"

text \<open>A record is rejected when it is not a mapping or one of the eight declared fields is.\<close>

definition record_rejected :: "lax_mode \<Rightarrow> pyobj \<Rightarrow> bool" where
  "record_rejected lax v =
     (case v of
        PyDict fs \<Rightarrow> list_ex (field_rejected lax fs) field_names
      | _ \<Rightarrow> True)"

text \<open>
  A document is rejected when it is not a mapping, when its \<open>provinces\<close> is not a
  mapping, or when one entry of \<open>provinces\<close> is a rejected record. A document without
  the key \<open>provinces\<close> is not rejected.
\<close>

definition document_rejected :: "lax_mode \<Rightarrow> pyobj \<Rightarrow> bool" where
  "document_rejected lax doc =
     (case doc of
        PyDict items \<Rightarrow>
          (case dict_get items ''provinces'' of
             None \<Rightarrow> False
           | Some (PyDict ps) \<Rightarrow> list_ex (\<lambda>(k, v). record_rejected lax v) ps
           | Some _ \<Rightarrow> True)
      | _ \<Rightarrow> True)"

section \<open>Concrete inputs\<close>

text \<open>
  One instance of the coercion parameter, after the conversion table of the library's
  documentation: a \<open>str\<close> must be decimal digits only, a \<open>float\<close> must be finite
  and have no fractional part.
\<close>

definition documented_lax :: lax_mode where
  "documented_lax =
     \<lparr>str_as_int = (\<lambda>s. if s \<noteq> [] \<and> list_all is_digit s then Some (decimal_value s) else None),
      float_as_int = (\<lambda>x. case x of
                            Finite m e \<Rightarrow>
                              (if 0 \<le> e then Some (m * 2 ^ nat e)
                               else if m mod 2 ^ nat (- e) = 0 then Some (m div 2 ^ nat (- e))
                               else None)
                          | _ \<Rightarrow> None)\<rparr>"

text \<open>The province record of the specification's example, as \<open>json.load\<close> returns it.\<close>

definition scotland :: "(string \<times> pyobj) list" where
  "scotland =
     [(''id'', PyInt 1), (''name'', PyStr ''Scotland''), (''type'', PyStr ''land''),
      (''owner'', PyStr ''SCO''), (''development'', PyInt 3), (''trade_goods'', PyStr ''wool''),
      (''terrain'', PyStr ''hills''), (''description'', PyStr ''A northern province.'')]"

definition scotland_record :: Province where
  "scotland_record =
     \<lparr>province_id = 1, province_name = ''Scotland'', province_type = ''land'', owner = ''SCO'',
      development = 3, trade_goods = ''wool'', terrain = ''hills'',
      description = ''A northern province.''\<rparr>"

text \<open>
  A document whose only lookup key, \<open>"123"\<close>, differs from the \<open>id\<close> of the record
  stored under it, 999.
\<close>

definition key_differs_from_id :: pyobj where
  "key_differs_from_id =
     PyDict [(''provinces'', PyDict [(''123'',
       PyDict [(''id'', PyInt 999), (''name'', PyStr ''Scotland''), (''type'', PyStr ''land''),
               (''owner'', PyStr ''SCO''), (''development'', PyInt 3),
               (''trade_goods'', PyStr ''wool''), (''terrain'', PyStr ''hills''),
               (''description'', PyStr ''A northern province.'')])])]"

text \<open>The document of the specification's example: the record above under the key \<open>"SCO"\<close>.\<close>

definition scotland_document :: pyobj where
  "scotland_document = PyDict [(''provinces'', PyDict [(''SCO'', PyDict scotland)])]"

text \<open>
  Two documents that depart from the documented shape: \<open>development\<close> given as the
  string \<open>"3"\<close>, and a record with the unknown field \<open>population\<close>.
\<close>

definition development_as_string :: pyobj where
  "development_as_string =
     PyDict [(''provinces'', PyDict [(''SCO'',
        PyDict [(''id'', PyInt 1), (''name'', PyStr ''Scotland''), (''type'', PyStr ''land''),
                (''owner'', PyStr ''SCO''), (''development'', PyStr ''3''),
                (''trade_goods'', PyStr ''wool''), (''terrain'', PyStr ''hills''),
                (''description'', PyStr ''A northern province.'')])])]"

definition population_added :: pyobj where
  "population_added =
     PyDict [(''provinces'', PyDict [(''SCO'', PyDict (scotland @ [(''population'', PyInt 12000)]))])]"

section \<open>Properties\<close>

text \<open>
  C1: when the provinces file does not exist, the loader returns a \<open>ProvincesData\<close>
  whose \<open>provinces\<close> mapping is empty, and raises nothing.
\<close>

theorem load_provinces_missing_file:
  "\<exists>pd. load_provinces lax Absent = Inr pd \<and> provinces pd = []"
  by (simp add: load_provinces_def file_exists_def)

lemma field_names_cases:
  assumes "f \<in> set field_names"
  obtains "f = ''id''" | "f = ''name''" | "f = ''type''" | "f = ''owner''"
    | "f = ''development''" | "f = ''trade_goods''" | "f = ''terrain''" | "f = ''description''"
proof -
  have "f = ''id'' \<or> f = ''name'' \<or> f = ''type'' \<or> f = ''owner'' \<or> f = ''development'' \<or>
        f = ''trade_goods'' \<or> f = ''terrain'' \<or> f = ''description''"
    using assms unfolding field_names_def by (simp only: set_simps insert_iff empty_iff simp_thms)
  then show thesis
    by (elim disjE) (rule that, assumption)+
qed

lemma validate_fields_Some_iff:
  "validate_fields lax fs = Some p \<longleftrightarrow>
     required fs ''id'' (int_validator lax) = Some (province_id p) \<and>
     required fs ''name'' str_validator = Some (province_name p) \<and>
     required fs ''type'' str_validator = Some (province_type p) \<and>
     required fs ''owner'' str_validator = Some (owner p) \<and>
     required fs ''development'' (int_validator lax) = Some (development p) \<and>
     required fs ''trade_goods'' str_validator = Some (trade_goods p) \<and>
     required fs ''terrain'' str_validator = Some (terrain p) \<and>
     required fs ''description'' str_validator = Some (description p)"
  by (cases p) (simp add: validate_fields_def Option.bind_eq_Some_conv)

lemma required_missing:
  assumes "f \<notin> set (dict_keys fs)"
  shows "required fs f validator = None"
proof -
  have "map_of fs f = None"
    using assms by (simp add: dict_keys_def map_of_eq_None_iff)
  then show ?thesis by (simp add: required_def dict_get_def)
qed

lemma validate_fields_missing:
  assumes "f \<in> set field_names" and "f \<notin> set (dict_keys fs)"
  shows "validate_fields lax fs = None"
proof (cases "validate_fields lax fs")
  case None
  then show ?thesis .
next
  case (Some p)
  have none: "required fs f (int_validator lax) = None" "required fs f str_validator = None"
    using assms(2) by (rule required_missing)+
  from Some have ok:
     "required fs ''id'' (int_validator lax) = Some (province_id p)"
     "required fs ''name'' str_validator = Some (province_name p)"
     "required fs ''type'' str_validator = Some (province_type p)"
     "required fs ''owner'' str_validator = Some (owner p)"
     "required fs ''development'' (int_validator lax) = Some (development p)"
     "required fs ''trade_goods'' str_validator = Some (trade_goods p)"
     "required fs ''terrain'' str_validator = Some (terrain p)"
     "required fs ''description'' str_validator = Some (description p)"
    by (simp_all only: validate_fields_Some_iff)
  from assms(1) have False
  proof (cases rule: field_names_cases)
    case 1 with none(1) ok(1) show False by simp
  next
    case 2 with none(2) ok(2) show False by simp
  next
    case 3 with none(2) ok(3) show False by simp
  next
    case 4 with none(2) ok(4) show False by simp
  next
    case 5 with none(1) ok(5) show False by simp
  next
    case 6 with none(2) ok(6) show False by simp
  next
    case 7 with none(2) ok(7) show False by simp
  next
    case 8 with none(2) ok(8) show False by simp
  qed
  then show ?thesis ..
qed

lemma validate_items_failing_item:
  "(k, v) \<in> set ps \<Longrightarrow> Province_model_validate lax v = Inl e \<Longrightarrow> validate_items lax ps = None"
  by (induction ps) (auto split: sum.splits option.splits)

lemma failing_item_fails_document:
  assumes "dict_get items ''provinces'' = Some (PyDict ps)"
    and "(k, v) \<in> set ps" and "Province_model_validate lax v = Inl e"
  shows "ProvincesData_model_validate lax (PyDict items) = Inl ValidationError"
  using assms(1) validate_items_failing_item [OF assms(2,3)]
  by (simp add: ProvincesData_model_validate_def)

lemma load_provinces_Document:
  "load_provinces lax (Document v) = ProvincesData_model_validate lax v"
  by (simp add: load_provinces_def file_exists_def json_load_def)

lemma main_load_provinces_Document:
  "main_load_provinces lax (Document v) = ProvincesData_model_validate lax v"
  by (simp add: main_load_provinces_def file_exists_def json_load_def)

lemma validate_scotland: "validate_fields lax scotland = Some scotland_record"
  by (simp add: validate_fields_Some_iff scotland_def scotland_record_def required_def
      dict_get_def int_validator_def str_validator_def)

text \<open>
  C2: a document whose \<open>provinces\<close> mapping holds a record that lacks one of the
  eight required fields fails validation as a whole, and so does loading it: the result
  is the error, never a dataset, partial or with a default in the place of the field.
\<close>

theorem missing_field_fails_whole_document:
  assumes "dict_get items ''provinces'' = Some (PyDict ps)"
    and "(k, PyDict fs) \<in> set ps"
    and "f \<in> set field_names" and "f \<notin> set (dict_keys fs)"
  shows "ProvincesData_model_validate lax (PyDict items) = Inl ValidationError \<and>
         load_provinces lax (Document (PyDict items)) = Inl ValidationError"
proof -
  have "Province_model_validate lax (PyDict fs) = Inl ValidationError"
    using validate_fields_missing [OF assms(3,4)] by (simp add: Province_model_validate_def)
  from failing_item_fails_document [OF assms(1,2) this]
  show ?thesis by (simp add: load_provinces_Document)
qed

theorem missing_field_fails_whole_document_witness:
  "load_provinces documented_lax
     (Document (PyDict [(''provinces'', PyDict
        [(''SCO'', PyDict scotland),
         (''ENG'', PyDict [(''id'', PyInt 2), (''name'', PyStr ''London''), (''type'', PyStr ''land''),
                           (''owner'', PyStr ''ENG''),
                           (''trade_goods'', PyStr ''cloth''), (''terrain'', PyStr ''plains''),
                           (''description'', PyStr ''A southern province.'')])])]))
   = Inl ValidationError"
proof -
  let ?eng = "[(''id'', PyInt 2), (''name'', PyStr ''London''), (''type'', PyStr ''land''),
               (''owner'', PyStr ''ENG''),
               (''trade_goods'', PyStr ''cloth''), (''terrain'', PyStr ''plains''),
               (''description'', PyStr ''A southern province.'')]"
  let ?ps = "[(''SCO'', PyDict scotland), (''ENG'', PyDict ?eng)]"
  have 1: "dict_get [(''provinces'', PyDict ?ps)] ''provinces'' = Some (PyDict ?ps)"
    by (simp add: dict_get_def)
  have 2: "(''ENG'', PyDict ?eng) \<in> set ?ps" by simp
  have 3: "''development'' \<in> set field_names" by (simp add: field_names_def)
  have 4: "''development'' \<notin> set (dict_keys ?eng)" by (simp add: dict_keys_def)
  from missing_field_fails_whole_document [OF 1 2 3 4] show ?thesis by simp
qed

lemma dict_get_None_iff: "dict_get d k = None \<longleftrightarrow> k \<notin> set (dict_keys d)"
  by (simp add: dict_get_def dict_keys_def map_of_eq_None_iff)

lemma dict_get_SomeD: "dict_get d k = Some v \<Longrightarrow> (k, v) \<in> set d"
  by (simp add: dict_get_def map_of_SomeD)

text \<open>
  C3: on a loaded dataset, the lookup returns the dump of the province stored under
  \<open>k\<close> exactly when \<open>k\<close> is a key of the mapping, and raises the 404 exception
  exactly when it is not; only the keys decide, never a record's \<open>id\<close>; on an
  empty dataset every lookup raises the 404 exception.
\<close>

theorem get_province_lookup:
  assumes "main_load_provinces lax fs = Inr pd"
  shows "((\<exists>p. dict_get (provinces pd) k = Some p \<and>
               get_province lax fs k = Inr (Province_model_dump p))
            \<longleftrightarrow> k \<in> set (dict_keys (provinces pd))) \<and>
         (get_province lax fs k = Inl (HTTPException 404 ''Province not found'')
            \<longleftrightarrow> k \<notin> set (dict_keys (provinces pd))) \<and>
         (provinces pd = [] \<longrightarrow>
            get_province lax fs k = Inl (HTTPException 404 ''Province not found''))"
proof (cases "dict_get (provinces pd) k")
  case None
  then have "get_province lax fs k = Inl (HTTPException 404 ''Province not found'')"
    using assms by (simp add: get_province_def)
  moreover from None have "k \<notin> set (dict_keys (provinces pd))"
    by (simp add: dict_get_None_iff)
  ultimately show ?thesis using None by simp
next
  case (Some p)
  then have "get_province lax fs k = Inr (Province_model_dump p)"
    using assms by (simp add: get_province_def)
  moreover from Some have "k \<in> set (dict_keys (provinces pd))"
    using dict_get_None_iff [of "provinces pd" k] by simp
  moreover from this have "provinces pd \<noteq> []" by (cases "provinces pd") (simp_all add: dict_keys_def)
  ultimately show ?thesis using Some by simp
qed

lemma load_key_differs_from_id:
  "main_load_provinces lax (Document key_differs_from_id) =
     Inr \<lparr>provinces = [(''123'', scotland_record\<lparr>province_id := 999\<rparr>)]\<rparr>"
  by (simp add: main_load_provinces_Document key_differs_from_id_def
      ProvincesData_model_validate_def dict_get_def Province_model_validate_def
      validate_fields_def required_def int_validator_def str_validator_def scotland_record_def)

theorem get_province_lookup_witness:
  "get_province documented_lax (Document key_differs_from_id) ''999'' =
     Inl (HTTPException 404 ''Province not found'') \<and>
   get_province documented_lax (Document key_differs_from_id) ''123'' =
     Inr (Province_model_dump (scotland_record\<lparr>province_id := 999\<rparr>)) \<and>
   get_province documented_lax Absent ''123'' = Inl (HTTPException 404 ''Province not found'')"
proof -
  have absent: "main_load_provinces documented_lax Absent = Inr \<lparr>provinces = []\<rparr>"
    by (simp add: main_load_provinces_def file_exists_def)
  show ?thesis
    using get_province_lookup [where lax = documented_lax and k = "''999''", OF load_key_differs_from_id]
      get_province_lookup [where lax = documented_lax and k = "''123''", OF load_key_differs_from_id]
      get_province_lookup [where k = "''123''", OF absent]
    by (simp add: dict_keys_def dict_get_def)
qed

text \<open>
  C8: the loader of src/main.py and the loader of src/core/helpers.py return the same
  dataset or raise the same error, whatever is found at the path.
\<close>

theorem loaders_agree: "main_load_provinces lax fs = load_provinces lax fs"
  by (simp add: main_load_provinces_def load_provinces_def)

text \<open>
  C10: the example record with \<open>development\<close> given as the string \<open>"3"\<close> loads,
  and the loaded record holds the integer 3.
\<close>

theorem digit_string_development_is_coerced:
  "load_provinces lax
     (Document (PyDict [(''provinces'', PyDict [(''SCO'',
        PyDict [(''id'', PyInt 1), (''name'', PyStr ''Scotland''), (''type'', PyStr ''land''),
                (''owner'', PyStr ''SCO''), (''development'', PyStr ''3''),
                (''trade_goods'', PyStr ''wool''), (''terrain'', PyStr ''hills''),
                (''description'', PyStr ''A northern province.'')])])]))
   = Inr \<lparr>provinces = [(''SCO'', scotland_record)]\<rparr> \<and> development scotland_record = 3"
  by (simp add: load_provinces_Document
      ProvincesData_model_validate_def dict_get_def Province_model_validate_def
      validate_fields_def required_def int_validator_def str_validator_def scotland_record_def
      plain_decimal_def is_digit_def decimal_value_def digit_value_def)

lemma validate_fields_bad_id:
  assumes "dict_get fs ''id'' = Some v" and "int_validator lax v = None"
  shows "validate_fields lax fs = None"
  using assms by (simp add: validate_fields_def required_def)

theorem string_id_counterexample:
  "load_provinces documented_lax
     (Document (PyDict [(''provinces'', PyDict [(''SCO'',
        PyDict [(''id'', PyStr ''5''), (''name'', PyStr ''Scotland''), (''type'', PyStr ''land''),
                (''owner'', PyStr ''SCO''), (''development'', PyInt 3),
                (''trade_goods'', PyStr ''wool''), (''terrain'', PyStr ''hills''),
                (''description'', PyStr ''A northern province.'')])])]))
   = Inr \<lparr>provinces = [(''SCO'', scotland_record\<lparr>province_id := 5\<rparr>)]\<rparr>"
  by (simp add: load_provinces_Document
      ProvincesData_model_validate_def dict_get_def Province_model_validate_def
      validate_fields_def required_def int_validator_def str_validator_def scotland_record_def
      plain_decimal_def is_digit_def decimal_value_def digit_value_def)

text \<open>
  C4, as the code has it: a document with a province record whose \<open>id\<close> is a string
  that the integer coercion does not accept (\<open>"abc"\<close>, say) fails validation. A
  string of decimal digits is accepted and read as its number, as
  \<open>string_id_counterexample\<close> shows for \<open>"5"\<close>.
\<close>

theorem rejected_string_id_fails_document:
  assumes "dict_get items ''provinces'' = Some (PyDict ps)"
    and "(k, PyDict fs) \<in> set ps"
    and "dict_get fs ''id'' = Some (PyStr s)"
    and "int_validator lax (PyStr s) = None"
  shows "ProvincesData_model_validate lax (PyDict items) = Inl ValidationError \<and>
         load_provinces lax (Document (PyDict items)) = Inl ValidationError"
proof -
  have "Province_model_validate lax (PyDict fs) = Inl ValidationError"
    using validate_fields_bad_id [OF assms(3,4)] by (simp add: Province_model_validate_def)
  from failing_item_fails_document [OF assms(1,2) this]
  show ?thesis by (simp add: load_provinces_Document)
qed

theorem rejected_string_id_fails_document_witness:
  "load_provinces documented_lax
     (Document (PyDict [(''provinces'', PyDict [(''SCO'',
        PyDict [(''id'', PyStr ''abc''), (''name'', PyStr ''Scotland''), (''type'', PyStr ''land''),
                (''owner'', PyStr ''SCO''), (''development'', PyInt 3),
                (''trade_goods'', PyStr ''wool''), (''terrain'', PyStr ''hills''),
                (''description'', PyStr ''A northern province.'')])])]))
   = Inl ValidationError"
proof -
  let ?fs = "[(''id'', PyStr ''abc''), (''name'', PyStr ''Scotland''), (''type'', PyStr ''land''),
                (''owner'', PyStr ''SCO''), (''development'', PyInt 3),
                (''trade_goods'', PyStr ''wool''), (''terrain'', PyStr ''hills''),
                (''description'', PyStr ''A northern province.'')]"
  let ?ps = "[(''SCO'', PyDict ?fs)]"
  have 1: "dict_get [(''provinces'', PyDict ?ps)] ''provinces'' = Some (PyDict ?ps)"
    by (simp add: dict_get_def)
  have 2: "(''SCO'', PyDict ?fs) \<in> set ?ps" by simp
  have 3: "dict_get ?fs ''id'' = Some (PyStr ''abc'')" by (simp add: dict_get_def)
  have 4: "int_validator documented_lax (PyStr ''abc'') = None"
    by (simp add: int_validator_def plain_decimal_def is_digit_def documented_lax_def)
  from rejected_string_id_fails_document [OF 1 2 3 4] show ?thesis by simp
qed

lemma map_of_filter_keys:
  "P k \<Longrightarrow> map_of (filter (\<lambda>(f, x). P f) fs) k = map_of fs k"
  by (induction fs) auto

lemma required_filter_declared:
  assumes "f \<in> set field_names"
  shows "required (filter (\<lambda>(f, x). f \<in> set field_names) fs) f validator = required fs f validator"
  using map_of_filter_keys [of "\<lambda>f. f \<in> set field_names" f fs] assms
  by (simp add: required_def dict_get_def)

lemma field_names_member:
  "''id'' \<in> set field_names" "''name'' \<in> set field_names" "''type'' \<in> set field_names"
  "''owner'' \<in> set field_names" "''development'' \<in> set field_names"
  "''trade_goods'' \<in> set field_names" "''terrain'' \<in> set field_names"
  "''description'' \<in> set field_names"
  by (simp_all add: field_names_def)

lemma validate_fields_filter_declared:
  "validate_fields lax (filter (\<lambda>(f, x). f \<in> set field_names) fs) = validate_fields lax fs"
  unfolding validate_fields_def
  by (simp only: required_filter_declared field_names_member)

lemma dump_keys: "\<exists>out. Province_model_dump p = PyDict out \<and> dict_keys out = field_names"
  by (simp add: Province_model_dump_def dict_keys_def field_names_def)

text \<open>
  C9: when the eight declared fields of a payload validate, the payload validates
  with any further unknown fields in it, to the same record; the record, dumped, has
  the eight declared keys and no other.
\<close>

theorem unknown_fields_are_ignored:
  assumes "Province_model_validate lax (PyDict (filter (\<lambda>(f, x). f \<in> set field_names) fs)) = Inr p"
  shows "Province_model_validate lax (PyDict fs) = Inr p \<and>
         (\<exists>out. Province_model_dump p = PyDict out \<and> dict_keys out = field_names)"
  using assms dump_keys [of p]
  by (simp add: Province_model_validate_def validate_fields_filter_declared)

theorem unknown_fields_are_ignored_witness:
  "Province_model_validate documented_lax
     (PyDict ((''population'', PyInt 12000) # scotland @ [(''capital'', PyStr ''Edinburgh'')]))
   = Inr scotland_record"
proof -
  let ?fs = "(''population'', PyInt 12000) # scotland @ [(''capital'', PyStr ''Edinburgh'')]"
  have "filter (\<lambda>(f, x). f \<in> set field_names) ?fs = scotland"
    by (simp add: scotland_def field_names_def)
  then have "Province_model_validate documented_lax
               (PyDict (filter (\<lambda>(f, x). f \<in> set field_names) ?fs)) = Inr scotland_record"
    by (simp add: Province_model_validate_def validate_scotland)
  from unknown_fields_are_ignored [OF this] show ?thesis by simp
qed

lemma fnmatch_lits_append:
  "fnmatch (map Lit l @ p) s \<longleftrightarrow> (\<exists>b. s = l @ b \<and> fnmatch p b)"
proof (induction l arbitrary: s)
  case Nil
  then show ?case by simp
next
  case (Cons c l)
  then show ?case by (cases s) auto
qed

lemma fnmatch_lits: "fnmatch (map Lit l) s \<longleftrightarrow> s = l"
  using fnmatch_lits_append [of l "[]" s] by simp

lemma fnmatch_star:
  "fnmatch (Star # p) s \<longleftrightarrow> (\<exists>a b. s = a @ b \<and> fnmatch p b)"
proof (induction s)
  case Nil
  then show ?case by simp
next
  case (Cons x xs)
  show ?case
  proof
    assume "fnmatch (Star # p) (x # xs)"
    then consider "fnmatch p (x # xs)" | "fnmatch (Star # p) xs" by auto
    then show "\<exists>a b. x # xs = a @ b \<and> fnmatch p b"
    proof cases
      case 1
      then have "x # xs = [] @ (x # xs) \<and> fnmatch p (x # xs)" by simp
      then show ?thesis by blast
    next
      case 2
      with Cons.IH obtain a b where "xs = a @ b" "fnmatch p b" by blast
      then have "x # xs = (x # a) @ b \<and> fnmatch p b" by simp
      then show ?thesis by blast
    qed
  next
    assume "\<exists>a b. x # xs = a @ b \<and> fnmatch p b"
    then obtain a b where ab: "x # xs = a @ b" "fnmatch p b" by blast
    show "fnmatch (Star # p) (x # xs)"
    proof (cases a)
      case Nil
      with ab have "fnmatch p (x # xs)" by simp
      then show ?thesis by simp
    next
      case (Cons y ys)
      with ab have "xs = ys @ b" by simp
      with ab(2) Cons.IH have "fnmatch (Star # p) xs" by blast
      then show ?thesis by simp
    qed
  qed
qed

lemma fnmatch_star_lits_star_lits:
  "fnmatch (Star # map Lit l1 @ Star # map Lit l2) n \<longleftrightarrow> (\<exists>a b. n = a @ l1 @ b @ l2)"
proof -
  have "(\<exists>a b. n = a @ b \<and> (\<exists>c. b = l1 @ c \<and> (\<exists>d. c = d @ l2))) \<longleftrightarrow>
        (\<exists>a b. n = a @ l1 @ b @ l2)"
    by auto
  then show ?thesis
    by (simp add: fnmatch_star fnmatch_lits_append fnmatch_lits)
qed

lemma fnmatch_map_png:
  "fnmatch map_png_pattern n \<longleftrightarrow> (\<exists>a b. n = a @ ''map'' @ b @ ''.png'')"
  unfolding map_png_pattern_def by (rule fnmatch_star_lits_star_lits)

theorem png_without_map_counterexample:
  "get_map_layer_files (Some [''terrain.png'']) = [] \<and>
   ''terrain.png'' \<notin> set [''data_map.png'', ''visual_map.png'']"
  by (simp add: get_map_layer_files_def map_png_pattern_def)

text \<open>
  C7, as the code has it: the listing returns, in sorted order, exactly the names of
  the directory that match \<open>*map*.png\<close> (a name that contains \<open>map\<close> and, after
  it, ends in \<open>.png\<close>), the two reserved names left out; it is the empty list when
  the directory does not exist. An image whose name does not match is not listed, as
  \<open>png_without_map_counterexample\<close> shows for \<open>terrain.png\<close>.
\<close>

theorem map_layer_listing:
  "get_map_layer_files (Some names) =
     sort (filter (\<lambda>n. (\<exists>a b. n = a @ ''map'' @ b @ ''.png'') \<and>
                        n \<noteq> ''data_map.png'' \<and> n \<noteq> ''visual_map.png'') names) \<and>
   sorted (get_map_layer_files static_path) \<and>
   get_map_layer_files None = []"
proof -
  have "filter (\<lambda>filename. filename \<notin> set [''data_map.png'', ''visual_map.png''])
          (filter (fnmatch map_png_pattern) names) =
        filter (\<lambda>n. (\<exists>a b. n = a @ ''map'' @ b @ ''.png'') \<and>
                        n \<noteq> ''data_map.png'' \<and> n \<noteq> ''visual_map.png'') names"
    unfolding filter_filter fnmatch_map_png
    by (rule filter_cong [OF refl]) (simp only: set_simps insert_iff empty_iff de_Morgan_disj simp_thms conj_commute conj_assoc)
  then have 1: "get_map_layer_files (Some names) =
     sort (filter (\<lambda>n. (\<exists>a b. n = a @ ''map'' @ b @ ''.png'') \<and>
                        n \<noteq> ''data_map.png'' \<and> n \<noteq> ''visual_map.png'') names)"
    by (simp only: get_map_layer_files_def option.case)
  have 2: "sorted (get_map_layer_files static_path)"
    by (cases static_path) (simp_all only: get_map_layer_files_def option.case sorted_sort)
  have 3: "get_map_layer_files None = []"
    by (simp add: get_map_layer_files_def)
  from 1 2 3 show ?thesis by (intro conjI)
qed

theorem map_layer_listing_witness:
  "get_map_layer_files
     (Some [''terrain.png'', ''political_map.png'', ''data_map.png'', ''map.png'',
            ''visual_map.png'', ''trade_map.jpg'', ''a_map_b.png'']) =
   [''a_map_b.png'', ''map.png'', ''political_map.png''] \<and>
   sorted [''a_map_b.png'', ''map.png'', ''political_map.png'']"
proof -
  let ?names = "[''terrain.png'', ''political_map.png'', ''data_map.png'', ''map.png'',
            ''visual_map.png'', ''trade_map.jpg'', ''a_map_b.png'']"
  have "get_map_layer_files (Some ?names) = [''a_map_b.png'', ''map.png'', ''political_map.png'']"
    by (simp add: get_map_layer_files_def map_png_pattern_def)
  with map_layer_listing [of ?names "Some ?names"] show ?thesis by simp
qed

lemma schema_lookup:
  assumes "set (dict_keys fs) = set field_names" and "f \<in> set field_names"
    and "list_all (\<lambda>(f, x). P f x) fs"
  obtains x where "dict_get fs f = Some x" and "P f x"
proof -
  from assms(1,2) have "f \<in> set (dict_keys fs)" by simp
  then obtain x where x: "dict_get fs f = Some x"
    using dict_get_None_iff [of fs f] by (cases "dict_get fs f") simp_all
  then have "(f, x) \<in> set fs" by (rule dict_get_SomeD)
  with assms(3) have "P f x" by (auto simp: list_all_iff)
  with x show thesis by (rule that)
qed

lemma is_PyInt: "(case x of PyInt n \<Rightarrow> True | _ \<Rightarrow> False) \<Longrightarrow> \<exists>n. x = PyInt n"
  by (cases x) simp_all

lemma is_PyStr: "(case x of PyStr s \<Rightarrow> True | _ \<Rightarrow> False) \<Longrightarrow> \<exists>s. x = PyStr s"
  by (cases x) simp_all

lemma schema_int_field:
  assumes "set (dict_keys fs) = set field_names" and "f \<in> set field_names"
    and "list_all (\<lambda>(f, x). if f \<in> set [''id'', ''development'']
                              then (case x of PyInt n \<Rightarrow> True | _ \<Rightarrow> False)
                              else (case x of PyStr s \<Rightarrow> True | _ \<Rightarrow> False)) fs"
    and "f \<in> set [''id'', ''development'']"
  shows "\<exists>n. dict_get fs f = Some (PyInt n)"
proof -
  from assms(1,2,3) obtain x where x: "dict_get fs f = Some x"
    and "if f \<in> set [''id'', ''development'']
         then (case x of PyInt n \<Rightarrow> True | _ \<Rightarrow> False)
         else (case x of PyStr s \<Rightarrow> True | _ \<Rightarrow> False)"
    by (rule schema_lookup)
  with assms(4) have "case x of PyInt n \<Rightarrow> True | _ \<Rightarrow> False" by (simp only: if_True)
  then obtain n where "x = PyInt n" using is_PyInt by blast
  with x show ?thesis by simp
qed

lemma schema_str_field:
  assumes "set (dict_keys fs) = set field_names" and "f \<in> set field_names"
    and "list_all (\<lambda>(f, x). if f \<in> set [''id'', ''development'']
                              then (case x of PyInt n \<Rightarrow> True | _ \<Rightarrow> False)
                              else (case x of PyStr s \<Rightarrow> True | _ \<Rightarrow> False)) fs"
    and "f \<notin> set [''id'', ''development'']"
  shows "\<exists>s. dict_get fs f = Some (PyStr s)"
proof -
  from assms(1,2,3) obtain x where x: "dict_get fs f = Some x"
    and "if f \<in> set [''id'', ''development'']
         then (case x of PyInt n \<Rightarrow> True | _ \<Rightarrow> False)
         else (case x of PyStr s \<Rightarrow> True | _ \<Rightarrow> False)"
    by (rule schema_lookup)
  with assms(4) have "case x of PyStr s \<Rightarrow> True | _ \<Rightarrow> False" by (simp only: if_False)
  then obtain s where "x = PyStr s" using is_PyStr by blast
  with x show ?thesis by simp
qed

lemma province_matches_schemaD:
  assumes "province_matches_schema v"
  obtains fs where "v = PyDict fs" and "set (dict_keys fs) = set field_names"
    and "list_all (\<lambda>(f, x). if f \<in> set [''id'', ''development'']
                              then (case x of PyInt n \<Rightarrow> True | _ \<Rightarrow> False)
                              else (case x of PyStr s \<Rightarrow> True | _ \<Rightarrow> False)) fs"
  using assms by (cases v) (simp_all add: province_matches_schema_def)

lemma province_schema_round_trip:
  assumes "province_matches_schema v"
  shows "\<exists>p. Province_model_validate lax v = Inr p \<and>
             same_record (Some (Province_model_dump p)) (Some v)"
proof -
  from assms obtain fs where v: "v = PyDict fs"
    and keys: "set (dict_keys fs) = set field_names"
    and vals: "list_all (\<lambda>(f, x). if f \<in> set [''id'', ''development'']
                              then (case x of PyInt n \<Rightarrow> True | _ \<Rightarrow> False)
                              else (case x of PyStr s \<Rightarrow> True | _ \<Rightarrow> False)) fs"
    by (rule province_matches_schemaD)
  note int_field = schema_int_field [OF keys _ vals]
  note str_field = schema_str_field [OF keys _ vals]
  obtain i where i: "dict_get fs ''id'' = Some (PyInt i)"
    using int_field [of "''id''"] by (simp add: field_names_def) blast
  obtain dv where dv: "dict_get fs ''development'' = Some (PyInt dv)"
    using int_field [of "''development''"] by (simp add: field_names_def) blast
  obtain n where n: "dict_get fs ''name'' = Some (PyStr n)"
    using str_field [of "''name''"] by (simp add: field_names_def) blast
  obtain t where t: "dict_get fs ''type'' = Some (PyStr t)"
    using str_field [of "''type''"] by (simp add: field_names_def) blast
  obtain ow where ow: "dict_get fs ''owner'' = Some (PyStr ow)"
    using str_field [of "''owner''"] by (simp add: field_names_def) blast
  obtain tg where tg: "dict_get fs ''trade_goods'' = Some (PyStr tg)"
    using str_field [of "''trade_goods''"] by (simp add: field_names_def) blast
  obtain tr where tr: "dict_get fs ''terrain'' = Some (PyStr tr)"
    using str_field [of "''terrain''"] by (simp add: field_names_def) blast
  obtain ds where ds: "dict_get fs ''description'' = Some (PyStr ds)"
    using str_field [of "''description''"] by (simp add: field_names_def) blast
  let ?p = "\<lparr>province_id = i, province_name = n, province_type = t, owner = ow,
             development = dv, trade_goods = tg, terrain = tr, description = ds\<rparr>"
  have "validate_fields lax fs = Some ?p"
    by (simp add: validate_fields_Some_iff required_def i dv n t ow tg tr ds
        int_validator_def str_validator_def)
  then have 1: "Province_model_validate lax v = Inr ?p"
    by (simp add: v Province_model_validate_def)
  have keys': "fst ` set fs = set field_names"
    using keys by (simp add: dict_keys_def)
  have 2: "same_record (Some (Province_model_dump ?p)) (Some v)"
    unfolding v same_record_def Province_model_dump_def same_mapping_def
    using keys'
    by (simp add: dict_keys_def dict_get_def field_names_def
        i [unfolded dict_get_def] dv [unfolded dict_get_def] n [unfolded dict_get_def]
        t [unfolded dict_get_def] ow [unfolded dict_get_def] tg [unfolded dict_get_def]
        tr [unfolded dict_get_def] ds [unfolded dict_get_def])
  from 1 2 show ?thesis by blast
qed

lemma validate_items_schema:
  assumes "list_all (\<lambda>(key, v). province_matches_schema v) ps"
  shows "\<exists>qs. validate_items lax ps = Some qs \<and> dict_keys qs = dict_keys ps \<and>
              (\<forall>k v. dict_get ps k = Some v \<longrightarrow>
                 (\<exists>p. dict_get qs k = Some p \<and> Province_model_validate lax v = Inr p))"
  using assms
proof (induction ps)
  case Nil
  then show ?case by (simp add: dict_keys_def dict_get_def)
next
  case (Cons kv ps)
  obtain k0 v0 where kv: "kv = (k0, v0)" by (cases kv)
  from Cons.prems kv have "province_matches_schema v0"
    and rest: "list_all (\<lambda>(key, v). province_matches_schema v) ps" by simp_all
  then obtain p0 where p0: "Province_model_validate lax v0 = Inr p0"
    using province_schema_round_trip by blast
  from Cons.IH [OF rest] obtain qs where qs: "validate_items lax ps = Some qs"
    "dict_keys qs = dict_keys ps"
    "\<And>k v. dict_get ps k = Some v \<Longrightarrow>
        \<exists>p. dict_get qs k = Some p \<and> Province_model_validate lax v = Inr p"
    by blast
  have "validate_items lax (kv # ps) = Some ((k0, p0) # qs)"
    by (simp add: kv p0 qs(1))
  moreover have "dict_keys ((k0, p0) # qs) = dict_keys (kv # ps)"
    using qs(2) by (simp add: kv dict_keys_def)
  moreover have "\<forall>k v. dict_get (kv # ps) k = Some v \<longrightarrow>
      (\<exists>p. dict_get ((k0, p0) # qs) k = Some p \<and> Province_model_validate lax v = Inr p)"
    using qs(3) p0 by (auto simp: kv dict_get_def)
  ultimately show ?case by blast
qed

lemma dict_get_map_values:
  "dict_get (map (\<lambda>(k, p). (k, f p)) qs) k = map_option f (dict_get qs k)"
  by (induction qs) (auto simp: dict_get_def)

lemma dict_keys_map_values:
  "dict_keys (map (\<lambda>(k, p). (k, f p)) qs) = dict_keys qs"
  by (induction qs) (auto simp: dict_keys_def)

lemma document_matches_schemaD:
  assumes "document_matches_schema doc"
  obtains ps where "doc = PyDict [(''provinces'', PyDict ps)]"
    and "list_all (\<lambda>(key, v). province_matches_schema v) ps"
proof -
  from assms obtain items where items: "doc = PyDict items"
    by (cases doc) (simp_all add: document_matches_schema_def)
  with assms obtain k v where kv: "items = [(k, v)]"
    by (cases items; cases "tl items"; cases "hd items")
       (simp_all add: document_matches_schema_def split: pyobj.splits)
  with assms items obtain ps where "v = PyDict ps"
    by (cases v) (simp_all add: document_matches_schema_def)
  with assms items kv have "doc = PyDict [(''provinces'', PyDict ps)]"
    and "list_all (\<lambda>(key, v). province_matches_schema v) ps"
    by (simp_all add: document_matches_schema_def)
  then show thesis by (rule that)
qed

text \<open>
  C5: a document of the documented shape loads, and the loaded dataset serializes
  (as the endpoint for the full dataset does) to an equivalent \<open>provinces\<close> mapping:
  the same keys, each with a record of the same eight field values.
\<close>

theorem load_then_dump_round_trip:
  assumes "document_matches_schema doc"
  shows "\<exists>pd. load_provinces lax (Document doc) = Inr pd \<and>
              get_provinces lax (Document doc) = Inr (ProvincesData_model_dump pd) \<and>
              equivalent_provinces (ProvincesData_model_dump pd) doc"
proof -
  from assms obtain ps where doc: "doc = PyDict [(''provinces'', PyDict ps)]"
    and schema: "list_all (\<lambda>(key, v). province_matches_schema v) ps"
    by (rule document_matches_schemaD)
  from validate_items_schema [OF schema] obtain qs where qs: "validate_items lax ps = Some qs"
    "dict_keys qs = dict_keys ps"
    "\<And>k v. dict_get ps k = Some v \<Longrightarrow>
        \<exists>p. dict_get qs k = Some p \<and> Province_model_validate lax v = Inr p"
    by blast
  let ?pd = "\<lparr>provinces = qs\<rparr>"
  let ?out = "map (\<lambda>(k, p). (k, Province_model_dump p)) qs"
  have valid: "ProvincesData_model_validate lax doc = Inr ?pd"
    by (simp add: doc ProvincesData_model_validate_def dict_get_def qs(1))
  then have 1: "load_provinces lax (Document doc) = Inr ?pd"
    by (simp add: load_provinces_Document)
  from valid have 2: "get_provinces lax (Document doc) = Inr (ProvincesData_model_dump ?pd)"
    by (simp add: get_provinces_def main_load_provinces_Document)
  have same: "same_record (dict_get ?out k) (dict_get ps k)" if "k \<in> set (dict_keys ps)" for k
  proof -
    from that obtain v where v: "dict_get ps k = Some v"
      using dict_get_None_iff [of ps k] by (cases "dict_get ps k") simp_all
    then have "(k, v) \<in> set ps" by (rule dict_get_SomeD)
    with schema have "province_matches_schema v" by (auto simp: list_all_iff)
    then obtain p where p: "Province_model_validate lax v = Inr p"
      "same_record (Some (Province_model_dump p)) (Some v)"
      using province_schema_round_trip by blast
    from qs(3) [OF v] p(1) have "dict_get qs k = Some p" by auto
    then have "dict_get ?out k = Some (Province_model_dump p)"
      by (simp add: dict_get_map_values)
    with p(2) v show ?thesis by simp
  qed
  have 3: "equivalent_provinces (ProvincesData_model_dump ?pd) doc"
    unfolding equivalent_provinces_def ProvincesData_model_dump_def doc
    using same by (simp add: dict_keys_map_values qs(2) list_all_iff)
  from 1 2 3 show ?thesis by blast
qed

theorem load_then_dump_round_trip_witness:
  "get_provinces documented_lax (Document scotland_document) = Inr scotland_document \<and>
   equivalent_provinces scotland_document scotland_document"
proof -
  have schema: "document_matches_schema scotland_document"
    by (simp add: scotland_document_def document_matches_schema_def province_matches_schema_def
        scotland_def dict_keys_def field_names_def)
  have load: "load_provinces documented_lax (Document scotland_document) =
                Inr \<lparr>provinces = [(''SCO'', scotland_record)]\<rparr>"
    by (simp add: load_provinces_Document scotland_document_def ProvincesData_model_validate_def
        dict_get_def Province_model_validate_def validate_scotland)
  have dump: "ProvincesData_model_dump \<lparr>provinces = [(''SCO'', scotland_record)]\<rparr> = scotland_document"
    by (simp add: ProvincesData_model_dump_def Province_model_dump_def scotland_record_def
        scotland_document_def scotland_def)
  from load_then_dump_round_trip [OF schema, of documented_lax] load dump
  show ?thesis by auto
qed

lemma int_rejected_iff: "int_rejected lax x \<longleftrightarrow> int_validator lax x = None"
  by (cases x) (simp_all add: int_rejected_def int_validator_def)

lemma str_rejected_iff: "str_rejected x \<longleftrightarrow> str_validator x = None"
  by (cases x) (simp_all add: str_rejected_def str_validator_def)

lemma field_rejected_int:
  "f \<in> set [''id'', ''development''] \<Longrightarrow>
     field_rejected lax fs f \<longleftrightarrow> required fs f (int_validator lax) = None"
  by (simp only: field_rejected_def required_def if_True int_rejected_iff split: option.split) simp

lemma field_rejected_str:
  "f \<notin> set [''id'', ''development''] \<Longrightarrow>
     field_rejected lax fs f \<longleftrightarrow> required fs f str_validator = None"
  by (simp only: field_rejected_def required_def if_False str_rejected_iff split: option.split) simp

lemma field_rejected_simps:
  "field_rejected lax fs ''id'' \<longleftrightarrow> required fs ''id'' (int_validator lax) = None"
  "field_rejected lax fs ''development'' \<longleftrightarrow> required fs ''development'' (int_validator lax) = None"
  "field_rejected lax fs ''name'' \<longleftrightarrow> required fs ''name'' str_validator = None"
  "field_rejected lax fs ''type'' \<longleftrightarrow> required fs ''type'' str_validator = None"
  "field_rejected lax fs ''owner'' \<longleftrightarrow> required fs ''owner'' str_validator = None"
  "field_rejected lax fs ''trade_goods'' \<longleftrightarrow> required fs ''trade_goods'' str_validator = None"
  "field_rejected lax fs ''terrain'' \<longleftrightarrow> required fs ''terrain'' str_validator = None"
  "field_rejected lax fs ''description'' \<longleftrightarrow> required fs ''description'' str_validator = None"
  by (simp_all add: field_rejected_int field_rejected_str)

lemma validate_fields_None_iff:
  "validate_fields lax fs = None \<longleftrightarrow>
     required fs ''id'' (int_validator lax) = None \<or>
     required fs ''name'' str_validator = None \<or>
     required fs ''type'' str_validator = None \<or>
     required fs ''owner'' str_validator = None \<or>
     required fs ''development'' (int_validator lax) = None \<or>
     required fs ''trade_goods'' str_validator = None \<or>
     required fs ''terrain'' str_validator = None \<or>
     required fs ''description'' str_validator = None"
  (is "?lhs \<longleftrightarrow> ?rhs")
proof
  assume ?lhs
  show ?rhs
  proof (rule ccontr)
    assume "\<not> ?rhs"
    then obtain i n t ow dv tg tr ds where
      "required fs ''id'' (int_validator lax) = Some i"
      "required fs ''name'' str_validator = Some n"
      "required fs ''type'' str_validator = Some t"
      "required fs ''owner'' str_validator = Some ow"
      "required fs ''development'' (int_validator lax) = Some dv"
      "required fs ''trade_goods'' str_validator = Some tg"
      "required fs ''terrain'' str_validator = Some tr"
      "required fs ''description'' str_validator = Some ds"
      by (simp only: de_Morgan_disj not_None_eq) (elim conjE exE)
    then have "validate_fields lax fs =
        Some \<lparr>province_id = i, province_name = n, province_type = t, owner = ow,
             development = dv, trade_goods = tg, terrain = tr, description = ds\<rparr>"
      by (simp only: validate_fields_Some_iff Province.simps simp_thms)
    with \<open>?lhs\<close> show False by simp
  qed
next
  assume ?rhs
  show ?lhs
  proof (cases "validate_fields lax fs")
    case None
    then show ?thesis .
  next
    case (Some p)
    then have
      "required fs ''id'' (int_validator lax) = Some (province_id p)"
      "required fs ''name'' str_validator = Some (province_name p)"
      "required fs ''type'' str_validator = Some (province_type p)"
      "required fs ''owner'' str_validator = Some (owner p)"
      "required fs ''development'' (int_validator lax) = Some (development p)"
      "required fs ''trade_goods'' str_validator = Some (trade_goods p)"
      "required fs ''terrain'' str_validator = Some (terrain p)"
      "required fs ''description'' str_validator = Some (description p)"
      by (simp_all only: validate_fields_Some_iff)
    with \<open>?rhs\<close> have False by (simp only: option.distinct simp_thms)
    then show ?thesis ..
  qed
qed

lemma Province_model_validate_error:
  "Province_model_validate lax v = Inl e \<Longrightarrow> e = ValidationError"
  by (cases v) (simp_all add: Province_model_validate_def split: option.splits)

lemma ProvincesData_model_validate_error:
  "ProvincesData_model_validate lax v = Inl e \<Longrightarrow> e = ValidationError"
  by (auto simp: ProvincesData_model_validate_def split: pyobj.splits option.splits)

lemma record_rejected_iff:
  "record_rejected lax v \<longleftrightarrow> Province_model_validate lax v = Inl ValidationError"
proof (cases v)
  case (PyDict fs)
  have "list_ex (field_rejected lax fs) field_names \<longleftrightarrow> validate_fields lax fs = None"
    unfolding field_names_def validate_fields_None_iff
    by (simp only: list_ex_Nil_iff list_ex_Cons_iff field_rejected_simps simp_thms disj_ac)
  then show ?thesis
    by (simp add: PyDict record_rejected_def Province_model_validate_def split: option.split)
qed (simp_all add: record_rejected_def Province_model_validate_def)

lemma validate_items_None_iff:
  "validate_items lax ps = None \<longleftrightarrow> list_ex (\<lambda>(k, v). record_rejected lax v) ps"
proof (induction ps)
  case Nil
  then show ?case by simp
next
  case (Cons kv ps)
  obtain k v where kv: "kv = (k, v)" by (cases kv)
  show ?case
  proof (cases "Province_model_validate lax v")
    case (Inl e)
    then have "e = ValidationError" by (rule Province_model_validate_error)
    with Inl show ?thesis by (simp add: kv record_rejected_iff)
  next
    case (Inr p)
    show ?thesis
    proof (cases "validate_items lax ps")
      case None
      with Cons.IH Inr show ?thesis by (simp add: kv)
    next
      case (Some qs)
      with Cons.IH have "\<not> list_ex (\<lambda>(k, v). record_rejected lax v) ps" by simp
      with Some Inr show ?thesis by (simp add: kv record_rejected_iff)
    qed
  qed
qed

lemma document_rejected_iff:
  "document_rejected lax doc \<longleftrightarrow> ProvincesData_model_validate lax doc = Inl ValidationError"
proof (cases doc)
  case (PyDict items)
  show ?thesis
  proof (cases "dict_get items ''provinces''")
    case None
    then show ?thesis
      by (simp add: PyDict document_rejected_def ProvincesData_model_validate_def)
  next
    case (Some x)
    then show ?thesis
      by (cases x)
         (simp_all add: PyDict document_rejected_def ProvincesData_model_validate_def
            validate_items_None_iff [symmetric] split: option.split)
  qed
qed (simp_all add: document_rejected_def ProvincesData_model_validate_def)

theorem schema_violations_load_counterexample:
  "\<not> document_matches_schema development_as_string \<and>
   load_provinces documented_lax (Document development_as_string) =
     Inr \<lparr>provinces = [(''SCO'', scotland_record)]\<rparr> \<and>
   \<not> document_matches_schema population_added \<and>
   load_provinces documented_lax (Document population_added) =
     Inr \<lparr>provinces = [(''SCO'', scotland_record)]\<rparr> \<and>
   \<not> document_matches_schema (PyDict []) \<and>
   load_provinces documented_lax (Document (PyDict [])) = Inr \<lparr>provinces = []\<rparr>"
proof -
  have 1: "\<not> document_matches_schema development_as_string"
    by (simp add: development_as_string_def document_matches_schema_def
        province_matches_schema_def)
  have 2: "load_provinces documented_lax (Document development_as_string) =
             Inr \<lparr>provinces = [(''SCO'', scotland_record)]\<rparr>"
    by (simp add: load_provinces_Document development_as_string_def
        ProvincesData_model_validate_def dict_get_def Province_model_validate_def
        validate_fields_def required_def int_validator_def str_validator_def scotland_record_def
        plain_decimal_def is_digit_def decimal_value_def digit_value_def)
  have 3: "\<not> document_matches_schema population_added"
    by (simp add: population_added_def document_matches_schema_def
        province_matches_schema_def scotland_def dict_keys_def field_names_def)
  have 4: "load_provinces documented_lax (Document population_added) =
             Inr \<lparr>provinces = [(''SCO'', scotland_record)]\<rparr>"
    by (simp add: load_provinces_Document population_added_def scotland_def
        ProvincesData_model_validate_def dict_get_def Province_model_validate_def
        validate_fields_def required_def int_validator_def str_validator_def scotland_record_def)
  have 5: "\<not> document_matches_schema (PyDict [])"
    by (simp add: document_matches_schema_def)
  have 6: "load_provinces documented_lax (Document (PyDict [])) = Inr \<lparr>provinces = []\<rparr>"
    by (simp add: load_provinces_Document ProvincesData_model_validate_def dict_get_def)
  from 1 2 3 4 5 6 show ?thesis by (intro conjI)
qed

text \<open>
  C6, as the code has it: a file whose text is not well-formed JSON makes the loader raise
  the parse error. A parsed document makes it raise the validation error, and return no
  dataset, exactly when the document is not a mapping, or its \<open>provinces\<close> is not a
  mapping, or one entry is not a mapping, lacks a declared field or holds a value the
  field's type does not accept. Every other document loads, also one that departs from
  the documented shape, as \<open>schema_violations_load_counterexample\<close> shows for a digit
  string in \<open>development\<close>, an unknown field and a missing \<open>provinces\<close> key.
\<close>

theorem load_raises_parse_and_validation_errors:
  "load_provinces lax Malformed = Inl JSONDecodeError \<and>
   (load_provinces lax (Document doc) = Inl ValidationError \<longleftrightarrow> document_rejected lax doc) \<and>
   ((\<exists>pd. load_provinces lax (Document doc) = Inr pd) \<longleftrightarrow> \<not> document_rejected lax doc)"
proof -
  have 1: "load_provinces lax Malformed = Inl JSONDecodeError"
    by (simp add: load_provinces_def file_exists_def json_load_def)
  have 2: "load_provinces lax (Document doc) = Inl ValidationError \<longleftrightarrow> document_rejected lax doc"
    by (simp add: load_provinces_Document document_rejected_iff)
  have 3: "(\<exists>pd. load_provinces lax (Document doc) = Inr pd) \<longleftrightarrow> \<not> document_rejected lax doc"
  proof (cases "ProvincesData_model_validate lax doc")
    case (Inl e)
    then have "e = ValidationError" by (rule ProvincesData_model_validate_error)
    with Inl show ?thesis by (simp add: load_provinces_Document document_rejected_iff)
  next
    case (Inr pd)
    then show ?thesis by (simp add: load_provinces_Document document_rejected_iff)
  qed
  from 1 2 3 show ?thesis by (intro conjI)
qed

theorem load_raises_parse_and_validation_errors_witness:
  "load_provinces documented_lax Malformed = Inl JSONDecodeError \<and>
   load_provinces documented_lax (Document (PyDict [(''provinces'', PyList [])])) =
     Inl ValidationError \<and>
   load_provinces documented_lax
     (Document (PyDict [(''provinces'', PyDict [(''SCO'',
        PyDict [(''id'', PyInt 1), (''name'', PyInt 7), (''type'', PyStr ''land''),
                (''owner'', PyStr ''SCO''), (''development'', PyInt 3),
                (''trade_goods'', PyStr ''wool''), (''terrain'', PyStr ''hills''),
                (''description'', PyStr ''A northern province.'')])])])) =
     Inl ValidationError"
proof -
  let ?d1 = "PyDict [(''provinces'', PyList [])]"
  let ?d2 = "PyDict [(''provinces'', PyDict [(''SCO'',
        PyDict [(''id'', PyInt 1), (''name'', PyInt 7), (''type'', PyStr ''land''),
                (''owner'', PyStr ''SCO''), (''development'', PyInt 3),
                (''trade_goods'', PyStr ''wool''), (''terrain'', PyStr ''hills''),
                (''description'', PyStr ''A northern province.'')])])]"
  have r1: "document_rejected documented_lax ?d1"
    by (simp add: document_rejected_def dict_get_def)
  have r2: "document_rejected documented_lax ?d2"
    by (simp add: document_rejected_def record_rejected_def field_rejected_def field_names_def
        dict_get_def str_rejected_def)
  from load_raises_parse_and_validation_errors [of documented_lax ?d1]
       load_raises_parse_and_validation_errors [of documented_lax ?d2] r1 r2
  show ?thesis by simp
qed

end
